theory Spec2Isabelle
  imports Main "HOL-Library.Word" "HOL-Library.Sublist"
begin

unbundle bit_operations_syntax

section \<open>samtools dict: the sequence dictionary writer of dict.c\<close>

text \<open>
  The development embeds \<open>write_dict\<close> and \<open>dict_main\<close> of
  \<open>samtools/dict.c.pysam.c\<close>. A C string (\<open>char *\<close>) is the list of its
  characters before the terminating NUL; the sequence buffer \<open>seq->seq.s\<close> is a list
  of \<open>char\<close> of length \<open>seq->seq.l\<close>. Files, standard input, the path resolver
  and the allocator are the environment of a run and are passed in explicitly.
\<close>

subsection \<open>Characters and the C library\<close>

type_synonym byte = "8 word"
type_synonym u32 = "32 word"

definition TAB :: char where
  "TAB = CHR 0x09"

definition NL :: char where
  "NL = CHR 0x0A"

text \<open>The largest value of a C \<open>int\<close> (32 bits).\<close>

definition INT_MAX :: nat where
  "INT_MAX = 2147483647"

text \<open>
  The value of a \<open>char\<close> object once promoted to \<open>int\<close>. Plain \<open>char\<close> is signed
  on the usual targets, so the bytes from 0x80 on are negative.
\<close>

definition c_char :: "char \<Rightarrow> int" where
  "c_char c = (if (of_char c :: int) < 128 then of_char c else of_char c - 256)"

text \<open>The conversion of an \<open>int\<close> back to \<open>char\<close> keeps the low eight bits.\<close>

definition to_char :: "int \<Rightarrow> char" where
  "to_char n = char_of n"

text \<open>\<open>toupper\<close> of the C locale.\<close>

definition toupper :: "int \<Rightarrow> int" where
  "toupper c = (if c_char (CHR ''a'') \<le> c \<and> c \<le> c_char (CHR ''z'') then c - 32 else c)"

text \<open>
  \<open>strcmp(a, b) == 0\<close> and \<open>strncmp(a, b, n) == 0\<close> on C strings: equality of
  the strings, and of their first \<open>n\<close> characters.
\<close>

definition strcmp_eq :: "string \<Rightarrow> string \<Rightarrow> bool" where
  "strcmp_eq a b = (a = b)"

definition strncmp_eq :: "string \<Rightarrow> string \<Rightarrow> nat \<Rightarrow> bool" where
  "strncmp_eq a b n = (take n a = take n b)"

text \<open>The conversion \<open>%d\<close> of \<open>printf\<close> for a value that is not negative.\<close>

definition digit_char :: "nat \<Rightarrow> char" where
  "digit_char d = char_of (of_char (CHR ''0'') + d)"

function dec_nat :: "nat \<Rightarrow> string" where
  "dec_nat n = (if n < 10 then [digit_char n] else dec_nat (n div 10) @ [digit_char (n mod 10)])"
  by pat_completeness auto
termination
  by (relation "measure id") auto

declare dec_nat.simps [simp del]

text \<open>
  The conversion \<open>%s\<close> of \<open>printf\<close> for a pointer that may be null. C defines no
  behaviour for a null pointer here; the C library of the targets prints the text
  \<open>(null)\<close>, and that is what the model writes.
\<close>

definition fmt_s :: "string option \<Rightarrow> string" where
  "fmt_s p = (case p of Some x \<Rightarrow> x | None \<Rightarrow> ''(null)'')"

subsection \<open>The normalisation loop (lines 76 to 79)\<close>

text \<open>
  \<open>for (i = k = 0; i < seq->seq.l; ++i)
       if (seq->seq.s[i] >= '!' && seq->seq.s[i] <= '~')
           seq->seq.s[k++] = toupper(seq->seq.s[i]);\<close>

  The buffer is compacted in place. The counters \<open>i\<close> and \<open>k\<close> are C \<open>int\<close>s that
  start at 0 and only grow, so they are naturals here; an increment past
  \<open>INT_MAX\<close> is a signed overflow, for which C defines no behaviour, and the model
  stops with that fault. The bound \<open>seq->seq.l\<close> is a \<open>size_t\<close>, the length of
  the buffer.
\<close>

datatype fault = SignedOverflow

definition in_range :: "char \<Rightarrow> bool" where
  "in_range c = (c_char c \<ge> c_char (CHR ''!'') \<and> c_char c \<le> c_char (CHR ''~''))"

function norm_loop :: "string \<Rightarrow> nat \<Rightarrow> nat \<Rightarrow> fault + (string \<times> nat)" where
  "norm_loop s i k =
     (if i < length s then
        (if in_range (s ! i) then
           (if k = INT_MAX \<or> i = INT_MAX then Inl SignedOverflow
            else norm_loop (s[k := to_char (toupper (c_char (s ! i)))]) (i + 1) (k + 1))
         else
           (if i = INT_MAX then Inl SignedOverflow
            else norm_loop s (i + 1) k))
      else Inr (s, k))"
  by pat_completeness auto
termination
  by (relation "measure (\<lambda>(s, i, k). length s - i)") auto

declare norm_loop.simps [simp del]

subsection \<open>MD5\<close>

text \<open>
  Modelled from the spec: the MD5 code of htslib, which stands behind
  \<open>hts_md5_update\<close> and \<open>hts_md5_final\<close>, is not part of the source file. The spec
  asks for the standard MD5 algorithm, bit for bit. \<open>md5\<close> below is that algorithm:
  the message is padded with 0x80, zeros and its length in bits as eight bytes, cut
  into blocks of 64 bytes read as sixteen little-endian 32-bit words, and each block
  goes through four rounds of sixteen steps on the state \<open>(a, b, c, d)\<close>.
\<close>

definition md5_K :: "u32 list" where
  "md5_K =
    [0xd76aa478, 0xe8c7b756, 0x242070db, 0xc1bdceee, 0xf57c0faf, 0x4787c62a, 0xa8304613, 0xfd469501,
     0x698098d8, 0x8b44f7af, 0xffff5bb1, 0x895cd7be, 0x6b901122, 0xfd987193, 0xa679438e, 0x49b40821,
     0xf61e2562, 0xc040b340, 0x265e5a51, 0xe9b6c7aa, 0xd62f105d, 0x02441453, 0xd8a1e681, 0xe7d3fbc8,
     0x21e1cde6, 0xc33707d6, 0xf4d50d87, 0x455a14ed, 0xa9e3e905, 0xfcefa3f8, 0x676f02d9, 0x8d2a4c8a,
     0xfffa3942, 0x8771f681, 0x6d9d6122, 0xfde5380c, 0xa4beea44, 0x4bdecfa9, 0xf6bb4b60, 0xbebfbc70,
     0x289b7ec6, 0xeaa127fa, 0xd4ef3085, 0x04881d05, 0xd9d4d039, 0xe6db99e5, 0x1fa27cf8, 0xc4ac5665,
     0xf4292244, 0x432aff97, 0xab9423a7, 0xfc93a039, 0x655b59c3, 0x8f0ccc92, 0xffeff47d, 0x85845dd1,
     0x6fa87e4f, 0xfe2ce6e0, 0xa3014314, 0x4e0811a1, 0xf7537e82, 0xbd3af235, 0x2ad7d2bb, 0xeb86d391]"

definition md5_S :: "nat list" where
  "md5_S =
    [7, 12, 17, 22, 7, 12, 17, 22, 7, 12, 17, 22, 7, 12, 17, 22,
     5, 9, 14, 20, 5, 9, 14, 20, 5, 9, 14, 20, 5, 9, 14, 20,
     4, 11, 16, 23, 4, 11, 16, 23, 4, 11, 16, 23, 4, 11, 16, 23,
     6, 10, 15, 21, 6, 10, 15, 21, 6, 10, 15, 21, 6, 10, 15, 21]"

definition md5_F :: "nat \<Rightarrow> u32 \<Rightarrow> u32 \<Rightarrow> u32 \<Rightarrow> u32" where
  "md5_F i b c d =
     (if i < 16 then (b AND c) OR (NOT b AND d)
      else if i < 32 then (d AND b) OR (NOT d AND c)
      else if i < 48 then b XOR c XOR d
      else c XOR (b OR NOT d))"

definition md5_g :: "nat \<Rightarrow> nat" where
  "md5_g i =
     (if i < 16 then i
      else if i < 32 then (5 * i + 1) mod 16
      else if i < 48 then (3 * i + 5) mod 16
      else (7 * i) mod 16)"

fun md5_step :: "u32 list \<Rightarrow> u32 \<times> u32 \<times> u32 \<times> u32 \<Rightarrow> nat \<Rightarrow> u32 \<times> u32 \<times> u32 \<times> u32" where
  "md5_step m (a, b, c, d) i =
     (d, b + word_rotl (md5_S ! i) (a + md5_F i b c d + md5_K ! i + m ! md5_g i), b, c)"

definition le32 :: "byte list \<Rightarrow> u32" where
  "le32 bs = foldr (\<lambda>b w. ucast b OR push_bit 8 w) bs 0"

definition md5_words :: "byte list \<Rightarrow> u32 list" where
  "md5_words blk = map (\<lambda>j. le32 (take 4 (drop (4 * j) blk))) [0..<16]"

fun md5_block :: "u32 \<times> u32 \<times> u32 \<times> u32 \<Rightarrow> byte list \<Rightarrow> u32 \<times> u32 \<times> u32 \<times> u32" where
  "md5_block (a0, b0, c0, d0) blk =
     (case foldl (md5_step (md5_words blk)) (a0, b0, c0, d0) [0..<64] of
        (a, b, c, d) \<Rightarrow> (a0 + a, b0 + b, c0 + c, d0 + d))"

definition md5_pad :: "byte list \<Rightarrow> byte list" where
  "md5_pad bs =
     bs @ [0x80] @ replicate ((119 - length bs mod 64) mod 64) 0
        @ map (\<lambda>j. ucast (drop_bit (8 * j) (8 * of_nat (length bs) :: 64 word))) [0..<8]"

definition bytes32 :: "u32 \<Rightarrow> byte list" where
  "bytes32 w = map (\<lambda>j. ucast (drop_bit (8 * j) w)) [0..<4]"

definition md5 :: "byte list \<Rightarrow> byte list" where
  "md5 bs =
     (let p = md5_pad bs;
          blks = map (\<lambda>j. take 64 (drop (64 * j) p)) [0..<length p div 64]
      in case foldl md5_block (0x67452301, 0xefcdab89, 0x98badcfe, 0x10325476) blks of
           (a, b, c, d) \<Rightarrow> bytes32 a @ bytes32 b @ bytes32 c @ bytes32 d)"

text \<open>
  Modelled from the spec: \<open>hts_md5_reset\<close>, \<open>hts_md5_update\<close> and \<open>hts_md5_final\<close>
  of htslib, not part of the source file. The spec describes a streaming accumulator
  that is reset for every record: it holds the bytes fed to it since it was last
  reset, and finishing it gives the 16 bytes of the MD5 of those bytes.
  \<open>hts_md5_update\<close> is given the buffer and the number of bytes to take from it.
\<close>

record hts_md5_context =
  absorbed :: "byte list"

definition hts_md5_reset :: "hts_md5_context \<Rightarrow> hts_md5_context" where
  "hts_md5_reset ctx = ctx\<lparr>absorbed := []\<rparr>"

definition hts_md5_update :: "hts_md5_context \<Rightarrow> string \<Rightarrow> nat \<Rightarrow> hts_md5_context" where
  "hts_md5_update ctx dat n = ctx\<lparr>absorbed := absorbed ctx @ map of_char (take n dat)\<rparr>"

definition hts_md5_final :: "hts_md5_context \<Rightarrow> byte list" where
  "hts_md5_final ctx = md5 (absorbed ctx)"

text \<open>
  Modelled from the spec: \<open>hts_md5_hex\<close> of htslib, not part of the source file. By the
  spec the digest is rendered in lowercase hexadecimal, two characters for every
  byte, the high half first.
\<close>

definition hex_chars :: string where
  "hex_chars = ''0123456789abcdef''"

definition hex_byte :: "byte \<Rightarrow> string" where
  "hex_byte b = [hex_chars ! (unat b div 16), hex_chars ! (unat b mod 16)]"

definition hts_md5_hex :: "byte list \<Rightarrow> string" where
  "hts_md5_hex dg = concat (map hex_byte dg)"

subsection \<open>The digest of one record (lines 76 to 83)\<close>

text \<open>
  The loop, then \<open>hts_md5_reset\<close>, \<open>hts_md5_update\<close> with the first \<open>k\<close> bytes
  of the buffer, \<open>hts_md5_final\<close> and \<open>hts_md5_hex\<close>. The result is the
  accumulator as the calls leave it, the count \<open>k\<close> and the text \<open>hex\<close>.
\<close>

definition digest :: "hts_md5_context \<Rightarrow> string \<Rightarrow> fault + (hts_md5_context \<times> nat \<times> string)" where
  "digest md5c s =
     (case norm_loop s 0 0 of
        Inl f \<Rightarrow> Inl f
      | Inr (s', k) \<Rightarrow>
          (let c1 = hts_md5_reset md5c;
               c2 = hts_md5_update c1 s' k;
               dg = hts_md5_final c2;
               hex = hts_md5_hex dg
           in Inr (c2, k, hex)))"

subsection \<open>Records, options and the environment of a run\<close>

text \<open>The two fields of \<open>kseq_t\<close> that \<open>write_dict\<close> reads.\<close>

record kseq_t =
  name :: string
  seq :: string

text \<open>\<open>args_t\<close>; a pointer field is \<open>None\<close> when it is \<open>NULL\<close>.\<close>

record args_t =
  output_fname :: "string option"
  fname :: "string option"
  assembly :: "string option"
  species :: "string option"
  uri :: "string option"
  "alias" :: int
  header :: int

text \<open>
  An open input is the list of what the successive calls of \<open>kseq_read\<close> give: the
  value returned and the record left in \<open>seq\<close>. The loop of \<open>write_dict\<close> only tests
  the sign of the returned value; a negative value stands for the end of the data as
  well as for a failed read. When the list is used up the data has ended.

  The environment of a run: \<open>gzopen\<close> and \<open>gzdopen_stdin\<close> give the open input or
  \<open>None\<close> for a null pointer; \<open>fopen_w\<close> tells whether \<open>fopen(name, "w")\<close>
  succeeds; \<open>hts_md5_init\<close> is the new accumulator, or \<open>None\<close>; \<open>realpath\<close> is the
  path resolver \<open>realpath(fn, NULL)\<close>, which gives the resolved path or \<open>None\<close>
  for a null pointer.
\<close>

type_synonym gzFile = "(int \<times> kseq_t) list"

record env =
  gzopen :: "string \<Rightarrow> gzFile option"
  gzdopen_stdin :: "gzFile option"
  fopen_w :: "string \<Rightarrow> bool"
  hts_md5_init :: "hts_md5_context option"
  realpath :: "string \<Rightarrow> string option"

text \<open>
  How control leaves \<open>write_dict\<close>, and what the run wrote: to \<open>samtools_stdout\<close>,
  to the file \<open>output_fname\<close> (\<open>None\<close> while that file has not been opened) and to
  \<open>samtools_stderr\<close>.
\<close>

datatype status = Finished | Exited int | Undefined fault

record outcome =
  status :: status
  stdout_text :: string
  file_text :: "string option"
  stderr_text :: string

subsection \<open>One record line (lines 84 to 112)\<close>

text \<open>
  The alias (lines 85 to 98). The local variable \<open>name\<close> is advanced past the
  prefix in the first branch only, and the two comparisons that follow read it.
\<close>

definition alias_fprintf :: "string \<Rightarrow> string" where
  "alias_fprintf nm =
     (case (if strncmp_eq nm ''chr'' 3
            then (drop 3 nm, TAB # ''AN:'' @ drop 3 nm)
            else (nm, TAB # ''AN:chr'' @ nm)) of
        (nm', out1) \<Rightarrow>
          out1 @ (if strcmp_eq nm' ''M'' then '',chrMT,MT''
                  else if strcmp_eq nm' ''MT'' then '',chrM,M''
                  else []))"

text \<open>
  The URI (lines 99 to 109). \<open>rp\<close> is \<open>realpath\<close>; its result \<open>real_path\<close> goes
  to \<open>%s\<close> as it is, with no test for a null pointer.
\<close>

definition uri_fprintf :: "(string \<Rightarrow> string option) \<Rightarrow> string \<Rightarrow> args_t \<Rightarrow> string" where
  "uri_fprintf rp fn args =
     (case uri args of
        Some u \<Rightarrow> TAB # ''UR:'' @ u
      | None \<Rightarrow>
          (if \<not> strcmp_eq fn ''-'' then
             (let real_path = rp fn in TAB # ''UR:file://'' @ fmt_s real_path)
           else []))"

definition sq_line :: "(string \<Rightarrow> string option) \<Rightarrow> string \<Rightarrow> args_t \<Rightarrow> string \<Rightarrow> nat \<Rightarrow> string \<Rightarrow> string" where
  "sq_line rp fn args nm k hex =
     ''@SQ'' @ [TAB] @ ''SN:'' @ nm @ [TAB] @ ''LN:'' @ dec_nat k @ [TAB] @ ''M5:'' @ hex
       @ (if alias args \<noteq> 0 then alias_fprintf nm else [])
       @ uri_fprintf rp fn args
       @ (case assembly args of Some a \<Rightarrow> TAB # ''AS:'' @ a | None \<Rightarrow> [])
       @ (case species args of Some sp \<Rightarrow> TAB # ''SP:'' @ sp | None \<Rightarrow> [])
       @ [NL]"

subsection \<open>The loop over the records (lines 75 to 113)\<close>

fun write_records ::
  "(string \<Rightarrow> string option) \<Rightarrow> string \<Rightarrow> args_t \<Rightarrow> hts_md5_context \<Rightarrow> gzFile \<Rightarrow> status \<times> string" where
  "write_records rp fn args md5c [] = (Finished, [])"
| "write_records rp fn args md5c ((l, sq) # rest) =
     (if l \<ge> 0 then
        (case digest md5c (seq sq) of
           Inl f \<Rightarrow> (Undefined f, [])
         | Inr (md5c', k, hex) \<Rightarrow>
             (case write_records rp fn args md5c' rest of
                (st, txt) \<Rightarrow> (st, sq_line rp fn args (name sq) k hex @ txt)))
      else (Finished, []))"

subsection \<open>\<open>write_dict\<close>\<close>

definition hd_line :: string where
  "hd_line = ''@HD'' @ [TAB] @ ''VN:1.0'' @ [TAB] @ ''SO:unsorted'' @ [NL]"

text \<open>Lines 70 to 113: the accumulator, the header and the loop; the text goes to \<open>out\<close>.\<close>

definition write_body :: "env \<Rightarrow> string \<Rightarrow> args_t \<Rightarrow> gzFile \<Rightarrow> status \<times> string" where
  "write_body e fn args fp =
     (case hts_md5_init e of
        None \<Rightarrow> (Exited 1, [])
      | Some md5c \<Rightarrow>
          (case write_records (realpath e) fn args md5c fp of
             (st, txt) \<Rightarrow> (st, (if header args \<noteq> 0 then hd_line else []) @ txt)))"

definition write_dict :: "env \<Rightarrow> string \<Rightarrow> args_t \<Rightarrow> outcome" where
  "write_dict e fn args =
     (case (if \<not> strcmp_eq fn ''-'' then gzopen e fn else gzdopen_stdin e) of
        None \<Rightarrow>
          \<lparr>status = Exited 1, stdout_text = [], file_text = None,
           stderr_text = ''dict: '' @ fn @ '': No such file or directory'' @ [NL]\<rparr>
      | Some fp \<Rightarrow>
          (case output_fname args of
             None \<Rightarrow>
               (case write_body e fn args fp of
                  (st, txt) \<Rightarrow>
                    \<lparr>status = st, stdout_text = txt, file_text = None, stderr_text = []\<rparr>)
           | Some ofn \<Rightarrow>
               (if fopen_w e ofn then
                  (case write_body e fn args fp of
                     (st, txt) \<Rightarrow>
                       \<lparr>status = st, stdout_text = [], file_text = Some txt, stderr_text = []\<rparr>)
                else
                  \<lparr>status = Exited 1, stdout_text = [], file_text = None,
                   stderr_text = ''dict: '' @ ofn @ '': Cannot open file for writing'' @ [NL]\<rparr>)))"

subsection \<open>\<open>dict_main\<close>\<close>

definition dict_usage :: string where
  "dict_usage =
     [NL]
     @ ''About:   Create a sequence dictionary file from a fasta file'' @ [NL]
     @ ''Usage:   samtools dict [options] <file.fa|file.fa.gz>'' @ [NL, NL]
     @ ''Options: -a, --assembly STR    assembly'' @ [NL]
     @ ''         -A, --alias, --alternative-name'' @ [NL]
     @ ''                               add AN tag by adding/removing '' @ [CHR 0x27]
     @ ''chr'' @ [CHR 0x27, NL]
     @ ''         -H, --no-header       do not print @HD line'' @ [NL]
     @ ''         -o, --output FILE     file to write out dict file [samtools_stdout]'' @ [NL]
     @ ''         -s, --species STR     species'' @ [NL]
     @ ''         -u, --uri STR         URI [file:///abs/path/to/file.fa]'' @ [NL]
     @ [NL]"

text \<open>
  The option loop. Its input is what \<open>getopt_long\<close> returns call after call, the
  option character with \<open>optarg\<close>, until it returns a value that is not positive.
  \<open>None\<close> is \<open>return dict_usage()\<close>, taken for \<open>h\<close> and for every character
  outside the list. \<open>args_init\<close> is the structure after \<open>calloc\<close>, which is taken
  to succeed, and \<open>args->header = 1\<close>.
\<close>

fun dict_getopt :: "args_t \<Rightarrow> (char \<times> string) list \<Rightarrow> args_t option" where
  "dict_getopt args [] = Some args"
| "dict_getopt args ((c, optarg) # rest) =
     (if c = CHR ''A'' then dict_getopt (args\<lparr>alias := 1\<rparr>) rest
      else if c = CHR ''a'' then dict_getopt (args\<lparr>assembly := Some optarg\<rparr>) rest
      else if c = CHR ''s'' then dict_getopt (args\<lparr>species := Some optarg\<rparr>) rest
      else if c = CHR ''u'' then dict_getopt (args\<lparr>uri := Some optarg\<rparr>) rest
      else if c = CHR ''o'' then dict_getopt (args\<lparr>output_fname := Some optarg\<rparr>) rest
      else if c = CHR ''H'' then dict_getopt (args\<lparr>header := 0\<rparr>) rest
      else None)"

definition args_init :: args_t where
  "args_init =
     \<lparr>output_fname = None, fname = None, assembly = None, species = None, uri = None,
      alias = 0, header = 1\<rparr>"

text \<open>
  The result of the command: the exit status (the value \<open>dict_main\<close> returns, or the
  argument of \<open>samtools_exit\<close>; \<open>None\<close> when the behaviour is undefined) and the
  three texts. \<open>operands\<close> are the arguments from \<open>argv[optind]\<close> on and
  \<open>stdin_tty\<close> is \<open>isatty(STDIN_FILENO)\<close>.
\<close>

record process =
  exit_status :: "int option"
  proc_stdout :: string
  proc_file :: "string option"
  proc_stderr :: string

definition usage_exit :: process where
  "usage_exit =
     \<lparr>exit_status = Some 1, proc_stdout = [], proc_file = None, proc_stderr = dict_usage\<rparr>"

definition run_write_dict :: "env \<Rightarrow> string \<Rightarrow> args_t \<Rightarrow> process" where
  "run_write_dict e fn args =
     (let oc = write_dict e fn args
      in \<lparr>exit_status =
             (case status oc of Finished \<Rightarrow> Some 0 | Exited n \<Rightarrow> Some n | Undefined f \<Rightarrow> None),
          proc_stdout = stdout_text oc, proc_file = file_text oc,
          proc_stderr = stderr_text oc\<rparr>)"

definition dict_main :: "env \<Rightarrow> (char \<times> string) list \<Rightarrow> string list \<Rightarrow> bool \<Rightarrow> process" where
  "dict_main e opts operands stdin_tty =
     (case dict_getopt args_init opts of
        None \<Rightarrow> usage_exit
      | Some args \<Rightarrow>
          (case operands of
             [] \<Rightarrow> (if \<not> stdin_tty then run_write_dict e ''-'' args else usage_exit)
           | f # _ \<Rightarrow> run_write_dict e f args))"

text \<open>
  The text written to \<open>out\<close>, whichever of the two sinks it is, and the records the
  loop reads before \<open>kseq_read\<close> first returns a negative value.
\<close>

definition written :: "outcome \<Rightarrow> string" where
  "written oc = (case file_text oc of Some t \<Rightarrow> t | None \<Rightarrow> stdout_text oc)"

definition records_read :: "gzFile \<Rightarrow> kseq_t list" where
  "records_read fp = map snd (takeWhile (\<lambda>(l, r). l \<ge> 0) fp)"


subsection \<open>The reader\<close>

text \<open>
  Modelled from the spec: \<open>kseq_read\<close> is generated by the macro \<open>KSEQ_INIT\<close> of
  htslib, which is not part of the source file. By the spec a record begins at a
  line starting with \<open>>\<close>; what follows \<open>>\<close> up to the first whitespace is the
  name and the rest of that line is dropped; the lines up to the next header line or
  the end of the input, without their newlines, are the sequence. A successful
  read returns a value that is not negative; the model takes the length of the
  sequence for it.
\<close>

definition is_space :: "char \<Rightarrow> bool" where
  "is_space c = (c = CHR '' '' \<or> (9 \<le> (of_char c :: nat) \<and> (of_char c :: nat) \<le> 13))"

definition split_lines :: "string \<Rightarrow> string list" where
  "split_lines txt =
     foldr (\<lambda>c ls. if c = NL then [] # ls
                     else (case ls of [] \<Rightarrow> [[c]] | l # ls' \<Rightarrow> (c # l) # ls')) txt []"

fun feed_line :: "kseq_t list \<Rightarrow> string \<Rightarrow> kseq_t list" where
  "feed_line recs [] = recs"
| "feed_line recs (c # ln) =
     (if c = CHR ''>'' then recs @ [\<lparr>name = takeWhile (\<lambda>x. \<not> is_space x) ln, seq = []\<rparr>]
      else (case rev recs of
              [] \<Rightarrow> []
            | r # earlier \<Rightarrow> rev earlier @ [r\<lparr>seq := seq r @ c # ln\<rparr>]))"

definition fasta_records :: "string \<Rightarrow> kseq_t list" where
  "fasta_records txt = foldl feed_line [] (split_lines txt)"

definition kseq_reads :: "string \<Rightarrow> gzFile" where
  "kseq_reads txt = map (\<lambda>r. (int (length (seq r)), r)) (fasta_records txt)"

subsection \<open>The statements of the specification\<close>

text \<open>
  The definitions of this part follow the words of the specification; the theorems
  compare them with the functions above. A byte is retained when its value lies
  in 0x21..0x7E, and retained bytes are folded to upper case.
\<close>

definition retained :: "char \<Rightarrow> bool" where
  "retained c = (0x21 \<le> (of_char c :: nat) \<and> (of_char c :: nat) \<le> 0x7E)"

definition fold_upper :: "char \<Rightarrow> char" where
  "fold_upper c =
     (if (of_char (CHR ''a'') :: nat) \<le> of_char c \<and> (of_char c :: nat) \<le> of_char (CHR ''z'')
      then char_of (of_char c - 32 :: nat) else c)"

definition normalized :: "string \<Rightarrow> string" where
  "normalized s = map fold_upper (filter retained s)"

text \<open>
  The alias: the name without its prefix \<open>chr\<close>, or with \<open>chr\<close> put in front; then
  the two mitochondrial alternatives, chosen by the bare form of the name.
\<close>

definition derived_alias :: "string \<Rightarrow> string" where
  "derived_alias nm = (if prefix ''chr'' nm then drop 3 nm else ''chr'' @ nm)"

definition bare_form :: "string \<Rightarrow> string" where
  "bare_form nm = (if prefix ''chr'' nm then drop 3 nm else nm)"

definition alias_list :: "string \<Rightarrow> string" where
  "alias_list nm =
     derived_alias nm
       @ (if bare_form nm = ''M'' then '',chrMT,MT''
          else if bare_form nm = ''MT'' then '',chrM,M''
          else [])"

text \<open>
  The record line of section 6: the three mandatory fields, then each optional
  field that is present, in the order AN, UR, AS, SP, then the newline.
\<close>

definition opt_field :: "string \<Rightarrow> string option \<Rightarrow> string" where
  "opt_field tag v = (case v of None \<Rightarrow> [] | Some x \<Rightarrow> TAB # tag @ '':'' @ x)"

definition record_line ::
  "string \<Rightarrow> nat \<Rightarrow> string \<Rightarrow> string option \<Rightarrow> string option \<Rightarrow> string option \<Rightarrow> string option \<Rightarrow> string" where
  "record_line nm len hex an ur asm sp =
     ''@SQ'' @ [TAB] @ ''SN:'' @ nm @ [TAB] @ ''LN:'' @ dec_nat len @ [TAB] @ ''M5:'' @ hex
       @ opt_field ''AN'' an @ opt_field ''UR'' ur @ opt_field ''AS'' asm @ opt_field ''SP'' sp
       @ [NL]"

definition alias_value :: "args_t \<Rightarrow> string \<Rightarrow> string option" where
  "alias_value args nm = (if alias args \<noteq> 0 then Some (alias_list nm) else None)"

text \<open>
  The value of the UR field: the URI option; without it and for a named input,
  \<open>file://\<close> followed by the resolved path; without it and for standard input, no
  field. The specification says nothing of a resolver that finds no path; for that
  case the value is the one that the code writes, with \<open>(null)\<close> in the place of the
  path.
\<close>

definition uri_value :: "(string \<Rightarrow> string option) \<Rightarrow> string \<Rightarrow> args_t \<Rightarrow> string option" where
  "uri_value rp fn args =
     (case uri args of
        Some u \<Rightarrow> Some u
      | None \<Rightarrow> if fn = ''-'' then None else Some (''file://'' @ fmt_s (rp fn)))"

subsection \<open>Inputs for the worked examples\<close>

text \<open>
  Options, a stream of reads, and an environment on which the theorems are run. The
  FASTA text \<open>example_fasta\<close> has two records, which \<open>example_stream\<close> holds as
  the reads of an open input. The environment has that stream as the file
  \<open>ref.fa\<close> and on standard input, an empty file, a file whose second read
  fails, and a file that is really named \<open>-\<close>.
\<close>

definition example_args :: args_t where
  "example_args =
     \<lparr>output_fname = None, fname = None, assembly = Some ''GRCh38'',
      species = Some ''Homo sapiens'', uri = None, alias = 1, header = 1\<rparr>"

definition example_reads :: gzFile where
  "example_reads =
     [(10, \<lparr>name = ''chrM'', seq = ''ACGT ac gt''\<rparr>),
      (-1, \<lparr>name = ''chrM'', seq = ''ACGT ac gt''\<rparr>)]"

definition example_fasta :: string where
  "example_fasta =
     ''>chr1'' @ [NL] @ ''ACGTacgt'' @ [NL] @ ''>chr2'' @ [NL] @ ''acgtACGT'' @ [NL]"

definition example_stream :: gzFile where
  "example_stream =
     [(8, \<lparr>name = ''chr1'', seq = ''ACGTacgt''\<rparr>), (8, \<lparr>name = ''chr2'', seq = ''acgtACGT''\<rparr>)]"

definition example_env :: env where
  "example_env =
     \<lparr>gzopen = (\<lambda>f.
        if f = ''ref.fa'' then Some example_stream
        else if f = ''empty.fa'' then Some []
        else if f = ''-'' then Some [(8, \<lparr>name = ''decoy'', seq = ''ACGTACGT''\<rparr>)]
        else if f = ''bad.fa.gz'' then
          Some [(8, \<lparr>name = ''chr1'', seq = ''ACGTACGT''\<rparr>),
                (-3, \<lparr>name = ''chr2'', seq = ''AC''\<rparr>),
                (8, \<lparr>name = ''chr3'', seq = ''ACGTACGT''\<rparr>)]
        else None),
      gzdopen_stdin = Some example_stream,
      fopen_w = (\<lambda>f. f = ''out.dict''),
      hts_md5_init = Some \<lparr>absorbed = []\<rparr>,
      realpath = (\<lambda>f. Some (''/data/'' @ f))\<rparr>"

text \<open>
  A sequence of 4294967296 letters \<open>A\<close>, and an environment whose file \<open>big.fa\<close>
  has it as its second record; the value that \<open>kseq_read\<close> returns for it, the
  length as an \<open>int\<close>, is 0.
\<close>

definition long_seq :: string where
  "long_seq = replicate 4294967296 (CHR ''A'')"

definition long_env :: env where
  "long_env =
     example_env\<lparr>gzopen := (\<lambda>f.
        if f = ''big.fa'' then
          Some [(8, \<lparr>name = ''chr1'', seq = ''ACGTACGT''\<rparr>),
                (0, \<lparr>name = ''chr2'', seq = long_seq\<rparr>),
                (8, \<lparr>name = ''chr3'', seq = ''ACGTACGT''\<rparr>)]
        else None)\<rparr>"

text \<open>
  An environment in which the input \<open>/dev/stdin\<close> is a pipe: it opens and yields the
  stream of the examples, and the resolver finds no path for it.
\<close>

definition pipe_env :: env where
  "pipe_env =
     example_env\<lparr>gzopen := (\<lambda>f. if f = ''/dev/stdin'' then Some example_stream else None),
       realpath := (\<lambda>f. None)\<rparr>"

section \<open>Properties\<close>

subsection \<open>Characters\<close>

lemma c_char_nat: "c_char c = (if (of_char c :: nat) < 128 then int (of_char c) else int (of_char c) - 256)"
  by (simp add: c_char_def of_nat_of_char flip: of_nat_less_iff [where ?'a = int])

lemma c_char_literals:
  "c_char (CHR ''!'') = 33" "c_char (CHR ''~'') = 126" "c_char (CHR ''a'') = 97" "c_char (CHR ''z'') = 122"
  by (simp_all add: c_char_def)

text \<open>
  The test of the loop, written on the signed value of the \<open>char\<close>, holds exactly
  for the bytes whose value lies in 0x21..0x7E; on a target where \<open>char\<close> is
  unsigned the test reads the byte value itself.
\<close>

lemma in_range_retained: "in_range c = retained c"
proof -
  define n :: nat where "n = of_char c"
  have n: "n < 256" by (simp add: n_def)
  have cc: "c_char c = (if n < 128 then int n else int n - 256)"
    by (simp add: c_char_nat n_def)
  have rr: "retained c = (33 \<le> n \<and> n \<le> 126)"
    by (simp add: retained_def n_def)
  have ir: "in_range c = (33 \<le> c_char c \<and> c_char c \<le> 126)"
    by (simp add: in_range_def c_char_literals)
  show ?thesis
    unfolding ir rr cc using n by auto
qed

lemma toupper_fold_upper:
  assumes "retained c"
  shows "to_char (toupper (c_char c)) = fold_upper c"
proof -
  define n :: nat where "n = of_char c"
  have n: "33 \<le> n" "n \<le> 126"
    using assms by (simp_all add: retained_def n_def)
  have cc: "c_char c = int n"
    using n by (simp add: c_char_nat n_def)
  show ?thesis
  proof (cases "97 \<le> n \<and> n \<le> 122")
    case True
    then have "toupper (c_char c) = int (n - 32)"
      by (simp add: toupper_def cc c_char_literals)
    then have "to_char (toupper (c_char c)) = char_of (n - 32)"
      by (simp add: to_char_def del: of_nat_diff)
    moreover have "fold_upper c = char_of (n - 32)"
      using True by (simp add: fold_upper_def n_def)
    ultimately show ?thesis by simp
  next
    case False
    then have "toupper (c_char c) = int n"
      by (auto simp add: toupper_def cc c_char_literals)
    then have "to_char (toupper (c_char c)) = c"
      by (simp add: to_char_def n_def)
    moreover have "fold_upper c = c"
      using False by (auto simp add: fold_upper_def n_def)
    ultimately show ?thesis by simp
  qed
qed

subsection \<open>The loop computes the normalised sequence\<close>

text \<open>
  The invariant of the loop: the first \<open>k\<close> places of the buffer hold the normalised
  form of the first \<open>i\<close> bytes, and the bytes from \<open>i\<close> on are untouched.
\<close>

lemma norm_loop_inv:
  assumes "k \<le> i" "i \<le> length s" "length s \<le> INT_MAX"
  shows "\<exists>s'. norm_loop s i k = Inr (s', k + length (filter retained (drop i s)))
            \<and> length s' = length s
            \<and> take (k + length (filter retained (drop i s))) s' = take k s @ normalized (drop i s)"
  using assms
proof (induction s i k rule: norm_loop.induct)
  case (1 s i k)
  show ?case
  proof (cases "i < length s")
    case False
    with "1.prems" have "drop i s = []" by simp
    then show ?thesis
      using False by (simp add: norm_loop.simps [of s i k] normalized_def)
  next
    case True
    then have dr: "drop i s = s ! i # drop (Suc i) s"
      by (simp add: Cons_nth_drop_Suc)
    from True "1.prems" have iM: "i \<noteq> INT_MAX" "k \<noteq> INT_MAX" by simp_all
    show ?thesis
    proof (cases "in_range (s ! i)")
      case False
      then have nr: "\<not> retained (s ! i)" by (simp add: in_range_retained)
      from "1.IH"(2) [OF True False] iM "1.prems" True
      obtain s' where
        "norm_loop s (i + 1) k = Inr (s', k + length (filter retained (drop (i + 1) s)))"
        "length s' = length s"
        "take (k + length (filter retained (drop (i + 1) s))) s' = take k s @ normalized (drop (i + 1) s)"
        by auto
      then show ?thesis
        using True False iM nr
        by (simp add: norm_loop.simps [of s i k] dr normalized_def)
    next
      case inr: True
      then have r: "retained (s ! i)" by (simp add: in_range_retained)
      let ?x = "to_char (toupper (c_char (s ! i)))"
      let ?s2 = "s[k := ?x]"
      have x: "?x = fold_upper (s ! i)" using r by (rule toupper_fold_upper)
      have kl: "k < length s" using True "1.prems" by simp
      have d2: "drop (Suc i) (s[k := y]) = drop (Suc i) s" for y
        using "1.prems" by simp
      have t2: "take (Suc k) (s[k := y]) = take k s @ [y]" for y
        using kl by (simp add: take_Suc_conv_app_nth)
      from "1.IH"(1) [OF True inr] iM "1.prems" True
      obtain s' where
        "norm_loop ?s2 (i + 1) (k + 1) = Inr (s', k + 1 + length (filter retained (drop (i + 1) ?s2)))"
        "length s' = length ?s2"
        "take (k + 1 + length (filter retained (drop (i + 1) ?s2))) s' = take (k + 1) ?s2 @ normalized (drop (i + 1) ?s2)"
        by auto
      then show ?thesis
        using True inr iM r
        by (simp add: norm_loop.simps [of s i k] dr normalized_def d2 t2 x)
    qed
  qed
qed

text \<open>
  The loop run on the buffer \<open>a c\<close>: two bytes are kept and folded, and the third
  place of the buffer still holds what it held.
\<close>

lemma to_char_values: "to_char 65 = CHR ''A''" "to_char 67 = CHR ''C''"
  by code_simp+

lemma norm_loop_example: "norm_loop ''a c'' 0 0 = Inr (''ACc'', 2)"
  by (simp add: norm_loop.simps in_range_def c_char_def toupper_def INT_MAX_def to_char_values)

text \<open>A buffer longer than \<open>INT_MAX\<close> drives the counter \<open>i\<close> past \<open>INT_MAX\<close>.\<close>

lemma norm_loop_overflow:
  assumes "k \<le> i" "i \<le> INT_MAX" "INT_MAX < length s"
  shows "norm_loop s i k = Inl SignedOverflow"
  using assms
proof (induction s i k rule: norm_loop.induct)
  case (1 s i k)
  have il: "i < length s" using "1.prems" by simp
  show ?case
  proof (cases "i = INT_MAX")
    case True
    show ?thesis
      by (subst norm_loop.simps) (use il True in simp)
  next
    case False
    then have kM: "k \<noteq> INT_MAX" using "1.prems" by simp
    show ?thesis
    proof (cases "in_range (s ! i)")
      case True
      have "norm_loop (s[k := to_char (toupper (c_char (s ! i)))]) (i + 1) (k + 1) = Inl SignedOverflow"
        using "1.IH"(1) [OF il True] False kM "1.prems" by simp
      then show ?thesis using il True False kM by (simp add: norm_loop.simps [of s i k])
    next
      case nr: False
      have "norm_loop s (i + 1) k = Inl SignedOverflow"
        using "1.IH"(2) [OF il nr] False "1.prems" by simp
      then show ?thesis using il nr False by (simp add: norm_loop.simps [of s i k])
    qed
  qed
qed


lemma norm_loop_total:
  assumes "length s \<le> INT_MAX"
  shows "\<exists>s'. norm_loop s 0 0 = Inr (s', length (filter retained s))
            \<and> take (length (filter retained s)) s' = normalized s"
  using norm_loop_inv [of 0 0 s] assms by auto








subsection \<open>The digest\<close>

lemma length_bytes32: "length (bytes32 w) = 4"
  by (simp add: bytes32_def)

lemma length_md5: "length (md5 bs) = 16"
  by (simp add: md5_def Let_def length_bytes32 split: prod.splits)

lemma length_hts_md5_hex: "length (hts_md5_hex dg) = 2 * length dg"
  by (induction dg) (simp_all add: hts_md5_hex_def hex_byte_def)

lemma hex_chars_nth: "n < 16 \<Longrightarrow> hex_chars ! n \<in> set hex_chars"
  by (rule nth_mem) (simp add: hex_chars_def)

lemma set_hex_byte: "set (hex_byte b) \<subseteq> set hex_chars"
proof -
  have "unat b < 256" using unsigned_less [of b, where ?'a = nat] by simp
  then have "unat b div 16 < 16" "unat b mod 16 < 16" by simp_all
  then show ?thesis
    by (simp add: hex_byte_def hex_chars_nth)
qed

lemma set_hts_md5_hex: "set (hts_md5_hex dg) \<subseteq> set hex_chars"
  using set_hex_byte by (auto simp add: hts_md5_hex_def)

lemma digest_eq:
  assumes "length s \<le> INT_MAX"
  shows "digest md5c s =
     Inr (\<lparr>absorbed = map of_char (normalized s)\<rparr>, length (filter retained s),
          hts_md5_hex (md5 (map of_char (normalized s))))"
proof -
  from norm_loop_total [OF assms] obtain s' where
    "norm_loop s 0 0 = Inr (s', length (filter retained s))"
    "take (length (filter retained s)) s' = normalized s"
    by blast
  then show ?thesis
    by (simp add: digest_def hts_md5_reset_def hts_md5_update_def hts_md5_final_def)
qed

lemma digest_overflow:
  assumes "INT_MAX < length s"
  shows "digest md5c s = Inl SignedOverflow"
  using norm_loop_overflow [of 0 0 s] assms by (simp add: digest_def)


subsection \<open>Worked values\<close>

text \<open>
  Two values of the RFC 1321 test suite, the second of two blocks, and the digest of
  the sequence \<open>ACGTACGT\<close> that the examples use.
\<close>

lemma md5_test_vectors:
  "hts_md5_hex (md5 []) = ''d41d8cd98f00b204e9800998ecf8427e''"
  "hts_md5_hex (md5 (map of_char ''ABCDEFGHIJKLMNOPQRSTUVWXYZabcdefghijklmnopqrstuvwxyz0123456789''))
     = ''d174ab98d277d9f5a5611c2c9f419d9f''"
  by code_simp+

lemma md5_hex_bytes:
  "hts_md5_hex (md5 [65, 67, 71, 84, 65, 67, 71, 84]) = ''cc0af3a4fedb18378b4b57b98068e69f''"
  by code_simp

lemma md5_hex_ACGTACGT:
  "hts_md5_hex (md5 (map of_char ''ACGTACGT'')) = ''cc0af3a4fedb18378b4b57b98068e69f''"
  by (simp add: md5_hex_bytes)

lemma normalized_example:
  "normalized (''ACGT'' @ [NL] @ ''ac gt'') = ''ACGTACGT''"
  "length (filter retained (''ACGT'' @ [NL] @ ''ac gt'')) = 8"
  by code_simp+

subsection \<open>The record line\<close>

lemma strncmp_chr_prefix: "strncmp_eq nm ''chr'' 3 = prefix ''chr'' nm"
proof
  assume "strncmp_eq nm ''chr'' 3"
  then have "take 3 nm = ''chr''" by (simp add: strncmp_eq_def)
  then have "nm = ''chr'' @ drop 3 nm" by (metis append_take_drop_id)
  then show "prefix ''chr'' nm" by (rule prefixI)
next
  assume "prefix ''chr'' nm"
  then obtain r where "nm = ''chr'' @ r" by (auto elim: prefixE)
  then show "strncmp_eq nm ''chr'' 3" by (simp add: strncmp_eq_def)
qed

lemma alias_fprintf_eq: "alias_fprintf nm = TAB # ''AN:'' @ alias_list nm"
  by (simp add: alias_fprintf_def alias_list_def derived_alias_def bare_form_def
      strncmp_chr_prefix strcmp_eq_def)

lemma uri_fprintf_eq: "uri_fprintf rp fn args = opt_field ''UR'' (uri_value rp fn args)"
  by (simp add: uri_fprintf_def uri_value_def opt_field_def strcmp_eq_def Let_def
      split: option.splits)

lemma sq_line_eq:
  "sq_line rp fn args nm k hex =
     record_line nm k hex (alias_value args nm) (uri_value rp fn args) (assembly args) (species args)"
  by (simp add: sq_line_def record_line_def alias_fprintf_eq uri_fprintf_eq alias_value_def
      opt_field_def split: option.splits)

lemma bare_form_cases:
  "bare_form nm = ''M'' \<longleftrightarrow> nm = ''M'' \<or> nm = ''chrM''"
  "bare_form nm = ''MT'' \<longleftrightarrow> nm = ''MT'' \<or> nm = ''chrMT''"
  by (auto simp add: bare_form_def elim!: prefixE)

lemma dec_nat_8: "dec_nat 8 = ''8''"
  by code_simp

lemma digit_chars: "map digit_char [0, 1, 2, 3, 4, 5, 6, 7, 8, 9] = ''0123456789''"
  by code_simp

lemma digit_char_nth: "d < 10 \<Longrightarrow> digit_char d = ''0123456789'' ! d"
proof -
  assume "d < 10"
  then have "d \<in> {0, 1, 2, 3, 4, 5, 6, 7, 8, 9}" by auto
  then show ?thesis using digit_chars by auto
qed

text \<open>The decimal text of some lengths, the largest \<open>int\<close> among them.\<close>

lemma dec_nat_values:
  "dec_nat 0 = ''0''"
  "dec_nat 10 = ''10''"
  "dec_nat 248956422 = ''248956422''"
  "dec_nat 2147483647 = ''2147483647''"
  by (simp_all add: dec_nat.simps digit_char_nth)

subsection \<open>The loop over the records\<close>

lemma records_read_Nil: "records_read [] = []"
  by (simp add: records_read_def)

lemma records_read_Cons:
  "records_read ((l, r) # fp) = (if l \<ge> 0 then r # records_read fp else [])"
  by (simp add: records_read_def)

lemma write_records_eq:
  assumes "\<forall>r \<in> set (records_read fp). length (seq r) \<le> INT_MAX"
  shows "write_records rp fn args md5c fp =
     (Finished,
      concat (map (\<lambda>r. sq_line rp fn args (name r) (length (filter retained (seq r)))
                          (hts_md5_hex (md5 (map of_char (normalized (seq r))))))
                  (records_read fp)))"
  using assms
proof (induction fp arbitrary: md5c)
  case Nil
  show ?case by (simp add: records_read_Nil)
next
  case (Cons x fp)
  obtain l r where x: "x = (l, r)" by (cases x)
  show ?case
  proof (cases "l \<ge> 0")
    case False
    then show ?thesis by (simp add: x records_read_Cons)
  next
    case True
    with Cons.prems have b: "length (seq r) \<le> INT_MAX"
      and rest: "\<forall>r \<in> set (records_read fp). length (seq r) \<le> INT_MAX"
      by (simp_all add: x records_read_Cons)
    show ?thesis
      using True by (simp add: x records_read_Cons digest_eq [OF b] Cons.IH [OF rest])
  qed
qed

lemma normalized_example2:
  "normalized ''ACGT ac gt'' = ''ACGTACGT''"
  "length (filter retained ''ACGT ac gt'') = 8"
  by code_simp+

lemma digest_example2:
  "digest md5c ''ACGT ac gt'' =
     Inr (\<lparr>absorbed = map of_char ''ACGTACGT''\<rparr>, 8, ''cc0af3a4fedb18378b4b57b98068e69f'')"
proof -
  have b: "length ''ACGT ac gt'' \<le> INT_MAX"
    by (simp add: INT_MAX_def)
  show ?thesis
    by (simp only: digest_eq [OF b] normalized_example2 md5_hex_ACGTACGT)
qed

lemma digest_Inr_bound:
  assumes "digest md5c s = Inr (c', k, hex)"
  shows "length s \<le> INT_MAX"
proof (rule ccontr)
  assume "\<not> length s \<le> INT_MAX"
  then have "digest md5c s = Inl SignedOverflow"
    by (simp add: digest_overflow)
  with assms show False by simp
qed

lemma digest_Inr_values:
  assumes "digest md5c s = Inr (c', k, hex)"
  shows "k = length (filter retained s)" "hex = hts_md5_hex (md5 (map of_char (normalized s)))"
  using assms digest_eq [OF digest_Inr_bound [OF assms], of md5c] by simp_all

subsection \<open>A record line is one line\<close>

lemma digit_char_not_NL: "d < 10 \<Longrightarrow> digit_char d \<noteq> NL"
proof -
  assume "d < 10"
  then have "d \<in> {0, 1, 2, 3, 4, 5, 6, 7, 8, 9}" by auto
  then show ?thesis
    by (auto simp add: digit_char_def NL_def char_of_def)
qed

lemma NL_notin_dec_nat: "NL \<notin> set (dec_nat n)"
proof (induction n rule: dec_nat.induct)
  case (1 n)
  show ?case
  proof (cases "n < 10")
    case True
    then show ?thesis
      using digit_char_not_NL [of n] by (simp add: dec_nat.simps [of n])
  next
    case False
    have "n mod 10 < 10" by simp
    then have "digit_char (n mod 10) \<noteq> NL" by (rule digit_char_not_NL)
    then show ?thesis
      using False "1.IH" by (simp add: dec_nat.simps [of n])
  qed
qed

lemma NL_notin_hex: "NL \<notin> set (hts_md5_hex dg)"
proof -
  have "NL \<notin> set hex_chars"
    by (simp add: hex_chars_def NL_def)
  then show ?thesis
    using set_hts_md5_hex [of dg] by blast
qed

lemma NL_notin_alias_list: "NL \<notin> set nm \<Longrightarrow> NL \<notin> set (alias_list nm)"
  by (auto simp add: alias_list_def derived_alias_def NL_def dest: in_set_dropD)

lemma count_list_opt_field:
  "(\<forall>x. v = Some x \<longrightarrow> NL \<notin> set x) \<Longrightarrow> NL \<notin> set tag \<Longrightarrow> count_list (opt_field tag v) NL = 0"
  by (cases v) (simp_all add: opt_field_def NL_def TAB_def)

lemma count_list_record_line:
  assumes "NL \<notin> set nm" "NL \<notin> set hex"
    and "\<forall>x. an = Some x \<longrightarrow> NL \<notin> set x" "\<forall>x. ur = Some x \<longrightarrow> NL \<notin> set x"
    and "\<forall>x. asm = Some x \<longrightarrow> NL \<notin> set x" "\<forall>x. sp = Some x \<longrightarrow> NL \<notin> set x"
  shows "count_list (record_line nm len hex an ur asm sp) NL = 1"
proof -
  have t: "NL \<notin> set ''AN''" "NL \<notin> set ''UR''" "NL \<notin> set ''AS''" "NL \<notin> set ''SP''"
    by (simp_all add: NL_def)
  have "count_list nm NL = 0" "count_list hex NL = 0" "count_list (dec_nat len) NL = 0"
    using assms(1,2) NL_notin_dec_nat [of len] by simp_all
  moreover have "count_list (opt_field ''AN'' an) NL = 0" "count_list (opt_field ''UR'' ur) NL = 0"
    "count_list (opt_field ''AS'' asm) NL = 0" "count_list (opt_field ''SP'' sp) NL = 0"
    using assms(3-6) t by (simp_all add: count_list_opt_field)
  moreover have "TAB \<noteq> NL"
    by (simp add: TAB_def NL_def)
  ultimately show ?thesis
    by (simp add: record_line_def NL_def)
qed

lemma write_records_header:
  "write_records rp fn (args\<lparr>header := h\<rparr>) md5c fp = write_records rp fn args md5c fp"
proof (induction fp arbitrary: md5c)
  case Nil
  show ?case by simp
next
  case (Cons x fp)
  obtain l r where x: "x = (l, r)" by (cases x)
  have "sq_line rp fn (args\<lparr>header := h\<rparr>) nm k hex = sq_line rp fn args nm k hex" for nm k hex
    by (simp add: sq_line_def uri_fprintf_def)
  then show ?case
    by (simp add: x Cons.IH split: sum.splits prod.splits)
qed

lemma write_records_shape:
  "\<exists>n \<le> length (records_read fp).
     snd (write_records rp fn args md5c fp) =
       concat (map (\<lambda>r. sq_line rp fn args (name r) (length (filter retained (seq r)))
                          (hts_md5_hex (md5 (map of_char (normalized (seq r))))))
                   (take n (records_read fp)))"
proof (induction fp arbitrary: md5c)
  case Nil
  show ?case by (simp add: records_read_Nil)
next
  case (Cons x fp)
  obtain l r where x: "x = (l, r)" by (cases x)
  show ?case
  proof (cases "l \<ge> 0 \<and> length (seq r) \<le> INT_MAX")
    case False
    then have "snd (write_records rp fn args md5c (x # fp)) = []"
      by (auto simp add: x digest_overflow)
    then show ?thesis by (intro exI [of _ 0]) simp
  next
    case True
    let ?c = "\<lparr>absorbed = map of_char (normalized (seq r))\<rparr>"
    from Cons.IH [of ?c] obtain n where n: "n \<le> length (records_read fp)"
      "snd (write_records rp fn args ?c fp) =
       concat (map (\<lambda>r. sq_line rp fn args (name r) (length (filter retained (seq r)))
                          (hts_md5_hex (md5 (map of_char (normalized (seq r))))))
                   (take n (records_read fp)))"
      by blast
    show ?thesis
      using True n
      by (intro exI [of _ "Suc n"]) (simp add: x records_read_Cons digest_eq case_prod_beta)
  qed
qed

lemma write_records_no_header:
  "\<not> prefix hd_line (snd (write_records rp fn args md5c fp))"
proof (cases fp)
  case Nil
  then show ?thesis by (simp add: hd_line_def)
next
  case (Cons x fp')
  obtain l r where x: "x = (l, r)" by (cases x)
  show ?thesis
    by (auto simp add: Cons x hd_line_def sq_line_def split: sum.splits prod.splits)
qed

lemma write_records_none:
  "records_read fp = [] \<Longrightarrow> write_records rp fn args md5c fp = (Finished, [])"
  by (cases fp) (auto simp add: records_read_Cons split: if_splits)

subsection \<open>The run\<close>

lemma write_dict_opened:
  assumes "(if fn \<noteq> ''-'' then gzopen e fn else gzdopen_stdin e) = Some fp"
    and "\<forall>ofn. output_fname args = Some ofn \<longrightarrow> fopen_w e ofn"
    and "hts_md5_init e = Some md5c"
  shows "written (write_dict e fn args) =
           (if header args \<noteq> 0 then hd_line else []) @ snd (write_records (realpath e) fn args md5c fp)"
    and "status (write_dict e fn args) = fst (write_records (realpath e) fn args md5c fp)"
    and "stderr_text (write_dict e fn args) = []"
  using assms
  by (auto simp add: write_dict_def write_body_def written_def strcmp_eq_def
      split: option.splits prod.splits if_splits)

text \<open>An input that cannot be opened ends the run with status 1 before anything is written.\<close>

lemma write_dict_unopened:
  assumes "(if fn \<noteq> ''-'' then gzopen e fn else gzdopen_stdin e) = None"
  shows "write_dict e fn args =
     \<lparr>status = Exited 1, stdout_text = [], file_text = None,
      stderr_text = ''dict: '' @ fn @ '': No such file or directory'' @ [NL]\<rparr>"
  using assms by (simp add: write_dict_def strcmp_eq_def split: if_splits)

lemma open_failure_is_fatal:
  assumes "dict_getopt args_init opts = Some args" and "f \<noteq> ''-''" and "gzopen e f = None"
  shows "dict_main e opts (f # others) tty =
     \<lparr>exit_status = Some 1, proc_stdout = [], proc_file = None,
      proc_stderr = ''dict: '' @ f @ '': No such file or directory'' @ [NL]\<rparr>"
proof -
  have "(if f \<noteq> ''-'' then gzopen e f else gzdopen_stdin e) = None"
    using assms(2,3) by simp
  then show ?thesis
    using assms(1) by (simp add: dict_main_def run_write_dict_def write_dict_unopened)
qed

subsection \<open>The worked examples\<close>

text \<open>The reader of the specification reads the stream of the examples from the FASTA text.\<close>

lemma kseq_reads_example: "kseq_reads example_fasta = example_stream"
  by code_simp

lemma normalized_examples:
  "normalized ''ACGTACGT'' = ''ACGTACGT''"
  "normalized ''ACGTacgt'' = ''ACGTACGT''"
  "normalized ''acgtACGT'' = ''ACGTACGT''"
  "length (filter retained ''ACGTACGT'') = 8"
  "length (filter retained ''ACGTacgt'') = 8"
  "length (filter retained ''acgtACGT'') = 8"
  by code_simp+

lemma digest_examples:
  "digest md5c ''ACGTACGT'' =
     Inr (\<lparr>absorbed = map of_char ''ACGTACGT''\<rparr>, 8, ''cc0af3a4fedb18378b4b57b98068e69f'')"
  "digest md5c ''ACGTacgt'' =
     Inr (\<lparr>absorbed = map of_char ''ACGTACGT''\<rparr>, 8, ''cc0af3a4fedb18378b4b57b98068e69f'')"
  "digest md5c ''acgtACGT'' =
     Inr (\<lparr>absorbed = map of_char ''ACGTACGT''\<rparr>, 8, ''cc0af3a4fedb18378b4b57b98068e69f'')"
proof -
  have b: "length ''ACGTACGT'' \<le> INT_MAX" "length ''ACGTacgt'' \<le> INT_MAX"
    "length ''acgtACGT'' \<le> INT_MAX"
    by (simp_all add: INT_MAX_def)
  show "digest md5c ''ACGTACGT'' =
     Inr (\<lparr>absorbed = map of_char ''ACGTACGT''\<rparr>, 8, ''cc0af3a4fedb18378b4b57b98068e69f'')"
    by (simp only: digest_eq [OF b(1)] normalized_examples md5_hex_ACGTACGT)
  show "digest md5c ''ACGTacgt'' =
     Inr (\<lparr>absorbed = map of_char ''ACGTACGT''\<rparr>, 8, ''cc0af3a4fedb18378b4b57b98068e69f'')"
    by (simp only: digest_eq [OF b(2)] normalized_examples md5_hex_ACGTACGT)
  show "digest md5c ''acgtACGT'' =
     Inr (\<lparr>absorbed = map of_char ''ACGTACGT''\<rparr>, 8, ''cc0af3a4fedb18378b4b57b98068e69f'')"
    by (simp only: digest_eq [OF b(3)] normalized_examples md5_hex_ACGTACGT)
qed

lemma args_init_fields:
  "output_fname args_init = None" "assembly args_init = None" "species args_init = None"
  "uri args_init = None" "alias args_init = 0" "header args_init = 1"
  by (simp_all add: args_init_def)

section \<open>The claims\<close>

subsection \<open>The digest of a record\<close>

text \<open>
  What lines 76 to 83 compute while the counters stay in the range of \<open>int\<close>: for a
  sequence of at most \<open>INT_MAX\<close> = 2147483647 bytes, and whatever the accumulator held
  before, \<open>digest\<close> returns as length the number of input bytes whose value lies in
  0x21..0x7E, and as \<open>hex_digest\<close> the hexadecimal rendering of the MD5 of exactly
  those bytes folded to upper case; the rendering has 32 characters, all of them among
  \<open>0123456789abcdef\<close>.
\<close>

theorem digest_bounded:
  assumes "length s \<le> INT_MAX"
  shows "(\<exists>c'. digest md5c s =
            Inr (c', length (filter retained s), hts_md5_hex (md5 (map of_char (normalized s)))))
       \<and> length (hts_md5_hex (md5 (map of_char (normalized s)))) = 32
       \<and> set (hts_md5_hex (md5 (map of_char (normalized s)))) \<subseteq> set ''0123456789abcdef''"
  using set_hts_md5_hex [of "md5 (map of_char (normalized s))"]
  by (simp add: digest_eq [OF assms] length_hts_md5_hex length_md5 hex_chars_def)

text \<open>The sequence \<open>ACGT\<close>, a newline, \<open>ac gt\<close>: eight bytes are retained.\<close>

theorem digest_bounded_witness:
  "length (''ACGT'' @ [NL] @ ''ac gt'') \<le> INT_MAX
   \<and> (\<exists>c'. digest \<lparr>absorbed = [0x41]\<rparr> (''ACGT'' @ [NL] @ ''ac gt'') =
          Inr (c', 8, ''cc0af3a4fedb18378b4b57b98068e69f''))"
proof -
  have h: "length (''ACGT'' @ [NL] @ ''ac gt'') \<le> INT_MAX"
    by (simp add: INT_MAX_def)
  from digest_bounded [OF h, of "\<lparr>absorbed = [0x41]\<rparr>"] h show ?thesis
    by (simp only: normalized_example md5_hex_ACGTACGT)
qed

text \<open>
  C1. For every input byte sequence, \<open>digest\<close> is to return as length the number of
  its bytes in 0x21..0x7E and as \<open>hex_digest\<close> the MD5 of those bytes folded to upper
  case. The code does not: the counters \<open>i\<close> and \<open>k\<close> of the loop of lines 76 to
  79 are of type \<open>int\<close>, the length they are compared with is a \<open>size_t\<close>, and
  nothing bounds that length. On a sequence of 4294967296 letters \<open>A\<close>, all of
  which are retained, the increment of \<open>i\<close> overflows at \<open>INT_MAX\<close>, long before
  the end of the sequence, which C leaves undefined; \<open>digest\<close> yields neither
  the length 4294967296 nor a digest.
\<close>

theorem digest_int_overflow:
  "digest \<lparr>absorbed = []\<rparr> (replicate 4294967296 (CHR ''A'')) = Inl SignedOverflow
   \<and> length (filter retained (replicate 4294967296 (CHR ''A''))) = 4294967296"
proof -
  have "INT_MAX < length (replicate 4294967296 (CHR ''A''))"
    by (simp add: INT_MAX_def)
  then have "digest \<lparr>absorbed = []\<rparr> (replicate 4294967296 (CHR ''A'')) = Inl SignedOverflow"
    by (rule digest_overflow)
  moreover have "retained (CHR ''A'')"
    by (simp add: retained_def)
  then have "filter retained (replicate 4294967296 (CHR ''A'')) = replicate 4294967296 (CHR ''A'')"
    by (simp add: filter_replicate)
  ultimately show ?thesis by simp
qed



subsection \<open>The optional fields of a record line\<close>

text \<open>
  C2. With alias emission enabled, the alias field of every record is \<open>AN:\<close> followed
  by the alias list of the name: the name without its prefix \<open>chr\<close> when it has
  one, otherwise \<open>chr\<close> put in front of it; then \<open>,chrMT,MT\<close> exactly when the bare
  form of the name is \<open>M\<close> (the names \<open>M\<close> and \<open>chrM\<close>), \<open>,chrM,M\<close> exactly when
  it is \<open>MT\<close> (the names \<open>MT\<close> and \<open>chrMT\<close>), and nothing more for any other name.
\<close>

theorem alias_field:
  "alias_fprintf nm = TAB # ''AN:'' @ alias_list nm
   \<and> (prefix ''chr'' nm \<longrightarrow> derived_alias nm = drop 3 nm)
   \<and> (\<not> prefix ''chr'' nm \<longrightarrow> derived_alias nm = ''chr'' @ nm)
   \<and> (nm = ''M'' \<or> nm = ''chrM'' \<longrightarrow> alias_list nm = derived_alias nm @ '',chrMT,MT'')
   \<and> (nm = ''MT'' \<or> nm = ''chrMT'' \<longrightarrow> alias_list nm = derived_alias nm @ '',chrM,M'')
   \<and> (nm \<notin> {''M'', ''chrM'', ''MT'', ''chrMT''} \<longrightarrow> alias_list nm = derived_alias nm)
   \<and> (alias args \<noteq> 0 \<longrightarrow>
        sq_line rp fn args nm k hex =
          record_line nm k hex (Some (alias_list nm)) (uri_value rp fn args) (assembly args) (species args))"
proof -
  have "nm = ''M'' \<or> nm = ''chrM'' \<longrightarrow> alias_list nm = derived_alias nm @ '',chrMT,MT''"
    by (auto simp add: alias_list_def bare_form_def)
  moreover have "nm = ''MT'' \<or> nm = ''chrMT'' \<longrightarrow> alias_list nm = derived_alias nm @ '',chrM,M''"
    by (auto simp add: alias_list_def bare_form_def)
  moreover have "nm \<notin> {''M'', ''chrM'', ''MT'', ''chrMT''} \<longrightarrow> alias_list nm = derived_alias nm"
    by (simp add: alias_list_def bare_form_cases)
  ultimately show ?thesis
    by (simp add: alias_fprintf_eq derived_alias_def sq_line_eq alias_value_def)
qed

text \<open>
  The name \<open>chrM\<close> gives \<open>AN:M,chrMT,MT\<close>, the name \<open>MT\<close> gives
  \<open>AN:chrMT,chrM,M\<close> and the name \<open>1\<close> gives \<open>AN:chr1\<close>.
\<close>

theorem alias_field_witness:
  "alias_fprintf ''chrM'' = TAB # ''AN:M,chrMT,MT''
   \<and> alias_fprintf ''MT'' = TAB # ''AN:chrMT,chrM,M''
   \<and> alias_fprintf ''1'' = TAB # ''AN:chr1''
   \<and> alias_fprintf ''M'' = TAB # ''AN:chrM,chrMT,MT''
   \<and> alias_fprintf ''chrMT'' = TAB # ''AN:MT,chrM,M''
   \<and> alias_fprintf ''chrM1'' = TAB # ''AN:M1''"
  using alias_field [of "''chrM''"] alias_field [of "''MT''"] alias_field [of "''1''"]
    alias_field [of "''M''"] alias_field [of "''chrMT''"] alias_field [of "''chrM1''"]
  by (simp add: derived_alias_def)

text \<open>
  C9. For a record whose name is exactly \<open>chr\<close>, with alias emission enabled, the
  alias field is \<open>AN:\<close> with an empty alias, and no mitochondrial alternative is
  appended.
\<close>

theorem chr_only_alias:
  "alias_fprintf ''chr'' = TAB # ''AN:''
   \<and> (alias args \<noteq> 0 \<longrightarrow>
        sq_line rp fn args ''chr'' k hex =
          ''@SQ'' @ [TAB] @ ''SN:chr'' @ [TAB] @ ''LN:'' @ dec_nat k @ [TAB] @ ''M5:'' @ hex
            @ [TAB] @ ''AN:''
            @ opt_field ''UR'' (uri_value rp fn args) @ opt_field ''AS'' (assembly args)
            @ opt_field ''SP'' (species args) @ [NL])"
proof -
  have "alias_list ''chr'' = []"
    by (simp add: alias_list_def derived_alias_def bare_form_def)
  then show ?thesis
    by (simp add: alias_fprintf_eq sq_line_eq alias_value_def record_line_def opt_field_def)
qed

text \<open>The whole line of such a record read from standard input, with no other option.\<close>

theorem chr_only_alias_witness:
  "sq_line (\<lambda>f. Some f) ''-''
     \<lparr>output_fname = None, fname = None, assembly = None, species = None, uri = None,
      alias = 1, header = 1\<rparr>
     ''chr'' 8 ''cc0af3a4fedb18378b4b57b98068e69f''
   = ''@SQ'' @ [TAB] @ ''SN:chr'' @ [TAB] @ ''LN:8'' @ [TAB] @ ''M5:cc0af3a4fedb18378b4b57b98068e69f''
       @ [TAB] @ ''AN:'' @ [NL]"
  using chr_only_alias [of
      "\<lparr>output_fname = None, fname = None, assembly = None, species = None, uri = None,
        alias = 1, header = 1\<rparr>" "\<lambda>f. Some f" "''-''" 8 "''cc0af3a4fedb18378b4b57b98068e69f''"]
  by (simp add: uri_value_def fmt_s_def opt_field_def dec_nat_8)

text \<open>
  The UR field of a record line: an explicit URI option is emitted as it is, whatever
  the input is; with no URI option and a named file as input the field is
  \<open>file://\<close> followed by the path that the resolver gives for that file, when it
  gives one, and by \<open>(null)\<close> when it gives none; with no URI option and standard
  input as the input there is no UR field.
\<close>

theorem uri_field:
  "(uri args = Some u \<longrightarrow>
      sq_line rp fn args nm k hex =
        record_line nm k hex (alias_value args nm) (Some u) (assembly args) (species args))
   \<and> (uri args = None \<and> fn \<noteq> ''-'' \<and> rp fn = Some path \<longrightarrow>
      sq_line rp fn args nm k hex =
        record_line nm k hex (alias_value args nm) (Some (''file://'' @ path))
          (assembly args) (species args))
   \<and> (uri args = None \<and> fn \<noteq> ''-'' \<and> rp fn = None \<longrightarrow>
      sq_line rp fn args nm k hex =
        record_line nm k hex (alias_value args nm) (Some ''file://(null)'')
          (assembly args) (species args))
   \<and> (uri args = None \<and> fn = ''-'' \<longrightarrow>
      sq_line rp fn args nm k hex =
        record_line nm k hex (alias_value args nm) None (assembly args) (species args))"
  by (simp add: sq_line_eq uri_value_def fmt_s_def)

text \<open>The cases on one record: the option with either input, and no option with either.\<close>

theorem uri_field_witness:
  "sq_line (\<lambda>f. Some (''/data/'' @ f)) ''-'' (args_init\<lparr>uri := Some ''http://x/ref.fa''\<rparr>) ''chr1'' 8 ''00''
     = ''@SQ'' @ [TAB] @ ''SN:chr1'' @ [TAB] @ ''LN:8'' @ [TAB] @ ''M5:00'' @ [TAB]
         @ ''UR:http://x/ref.fa'' @ [NL]
   \<and> sq_line (\<lambda>f. Some (''/data/'' @ f)) ''ref.fa'' (args_init\<lparr>uri := Some ''http://x/ref.fa''\<rparr>) ''chr1'' 8 ''00''
     = ''@SQ'' @ [TAB] @ ''SN:chr1'' @ [TAB] @ ''LN:8'' @ [TAB] @ ''M5:00'' @ [TAB]
         @ ''UR:http://x/ref.fa'' @ [NL]
   \<and> sq_line (\<lambda>f. Some (''/data/'' @ f)) ''ref.fa'' args_init ''chr1'' 8 ''00''
     = ''@SQ'' @ [TAB] @ ''SN:chr1'' @ [TAB] @ ''LN:8'' @ [TAB] @ ''M5:00'' @ [TAB]
         @ ''UR:file:///data/ref.fa'' @ [NL]
   \<and> sq_line (\<lambda>f. None) ''ref.fa'' args_init ''chr1'' 8 ''00''
     = ''@SQ'' @ [TAB] @ ''SN:chr1'' @ [TAB] @ ''LN:8'' @ [TAB] @ ''M5:00'' @ [TAB]
         @ ''UR:file://(null)'' @ [NL]
   \<and> sq_line (\<lambda>f. Some (''/data/'' @ f)) ''-'' args_init ''chr1'' 8 ''00''
     = ''@SQ'' @ [TAB] @ ''SN:chr1'' @ [TAB] @ ''LN:8'' @ [TAB] @ ''M5:00'' @ [NL]"
  using
    uri_field [where args = "args_init\<lparr>uri := Some ''http://x/ref.fa''\<rparr>"
      and u = "''http://x/ref.fa''" and fn = "''-''" and rp = "\<lambda>f. Some (''/data/'' @ f)"
      and path = "[]" and nm = "''chr1''" and k = 8 and hex = "''00''"]
    uri_field [where args = "args_init\<lparr>uri := Some ''http://x/ref.fa''\<rparr>"
      and u = "''http://x/ref.fa''" and fn = "''ref.fa''" and rp = "\<lambda>f. Some (''/data/'' @ f)"
      and path = "[]" and nm = "''chr1''" and k = 8 and hex = "''00''"]
    uri_field [where args = args_init and u = "[]" and fn = "''ref.fa''"
      and rp = "\<lambda>f. Some (''/data/'' @ f)" and path = "''/data/ref.fa''"
      and nm = "''chr1''" and k = 8 and hex = "''00''"]
    uri_field [where args = args_init and u = "[]" and fn = "''ref.fa''"
      and rp = "\<lambda>f. None" and path = "[]" and nm = "''chr1''" and k = 8 and hex = "''00''"]
    uri_field [where args = args_init and u = "[]" and fn = "''-''"
      and rp = "\<lambda>f. Some (''/data/'' @ f)" and path = "[]"
      and nm = "''chr1''" and k = 8 and hex = "''00''"]
  by (simp add: args_init_def record_line_def alias_value_def opt_field_def dec_nat_8)

text \<open>
  C3. With no URI option and a named file as input, the UR field is to be
  \<open>file://\<close> followed by the absolute resolved path of that file. The code does not
  assure it: the pointer that \<open>realpath\<close> returns goes to \<open>%s\<close> unchecked (lines
  105 to 108), and \<open>realpath\<close> returns a null pointer for an input that opens but has
  no path, such as \<open>/dev/stdin\<close> on a pipe. The run on that input with no option
  writes the field \<open>UR:file://(null)\<close> on every record line, prints nothing on the
  error stream and returns 0.
\<close>

theorem unresolved_path_prints_null:
  "realpath pipe_env ''/dev/stdin'' = None
   \<and> dict_main pipe_env [] [''/dev/stdin''] False =
     \<lparr>exit_status = Some 0,
      proc_stdout =
        ''@HD'' @ [TAB] @ ''VN:1.0'' @ [TAB] @ ''SO:unsorted'' @ [NL]
        @ ''@SQ'' @ [TAB] @ ''SN:chr1'' @ [TAB] @ ''LN:8'' @ [TAB]
        @ ''M5:cc0af3a4fedb18378b4b57b98068e69f'' @ [TAB] @ ''UR:file://(null)'' @ [NL]
        @ ''@SQ'' @ [TAB] @ ''SN:chr2'' @ [TAB] @ ''LN:8'' @ [TAB]
        @ ''M5:cc0af3a4fedb18378b4b57b98068e69f'' @ [TAB] @ ''UR:file://(null)'' @ [NL],
      proc_file = None, proc_stderr = []\<rparr>"
  by (simp add: dict_main_def args_init_def run_write_dict_def write_dict_def write_body_def
      pipe_env_def example_env_def strcmp_eq_def example_stream_def digest_examples sq_line_def
      uri_fprintf_def fmt_s_def hd_line_def dec_nat_8)

subsection \<open>The output of a run\<close>

text \<open>
  The lines of the records when \<open>digest\<close> returns for each of them, which it does
  when no sequence has more than \<open>INT_MAX\<close> bytes: one line for every record, in the
  order of the input, of the form \<open>@SQ SN:name LN:length M5:hex_digest\<close> followed
  by the optional fields, each present only if applicable, in the order AN, UR, AS, SP,
  and a newline; the fields are separated by tabs, and assembly and species are the
  options as they are. The line holds a single newline when the name and the options
  hold none.
\<close>

theorem record_lines_in_order:
  assumes "\<forall>r \<in> set (records_read fp). \<exists>c c'. digest c (seq r) = Inr (c', len r, hexd r)"
  shows "write_records rp fn args md5c fp =
     (Finished,
      concat (map (\<lambda>r. record_line (name r) (len r) (hexd r)
                          (alias_value args (name r)) (uri_value rp fn args)
                          (assembly args) (species args))
                  (records_read fp)))
    \<and> (\<forall>r \<in> set (records_read fp).
          NL \<notin> set (name r) \<and> (\<forall>x. uri_value rp fn args = Some x \<longrightarrow> NL \<notin> set x)
          \<and> (\<forall>x. assembly args = Some x \<longrightarrow> NL \<notin> set x)
          \<and> (\<forall>x. species args = Some x \<longrightarrow> NL \<notin> set x) \<longrightarrow>
          count_list (record_line (name r) (len r) (hexd r)
                          (alias_value args (name r)) (uri_value rp fn args)
                          (assembly args) (species args)) NL = 1)"
proof -
  have v: "len r = length (filter retained (seq r))
      \<and> hexd r = hts_md5_hex (md5 (map of_char (normalized (seq r))))
      \<and> length (seq r) \<le> INT_MAX"
    if "r \<in> set (records_read fp)" for r
  proof -
    from assms that obtain c c' where "digest c (seq r) = Inr (c', len r, hexd r)"
      by blast
    then show ?thesis
      using digest_Inr_values [of c "seq r" c' "len r" "hexd r"]
        digest_Inr_bound [of c "seq r" c' "len r" "hexd r"]
      by simp
  qed
  then have b: "\<forall>r \<in> set (records_read fp). length (seq r) \<le> INT_MAX"
    by blast
  have m: "map (\<lambda>r. sq_line rp fn args (name r) (length (filter retained (seq r)))
                    (hts_md5_hex (md5 (map of_char (normalized (seq r)))))) (records_read fp)
      = map (\<lambda>r. record_line (name r) (len r) (hexd r)
                          (alias_value args (name r)) (uri_value rp fn args)
                          (assembly args) (species args)) (records_read fp)"
    by (rule map_cong) (simp_all add: sq_line_eq v)
  have first: "write_records rp fn args md5c fp =
     (Finished,
      concat (map (\<lambda>r. record_line (name r) (len r) (hexd r)
                          (alias_value args (name r)) (uri_value rp fn args)
                          (assembly args) (species args))
                  (records_read fp)))"
    by (simp only: write_records_eq [OF b] m)
  have second: "count_list (record_line (name r) (len r) (hexd r)
                          (alias_value args (name r)) (uri_value rp fn args)
                          (assembly args) (species args)) NL = 1"
    if "r \<in> set (records_read fp)" "NL \<notin> set (name r)"
      "\<forall>x. uri_value rp fn args = Some x \<longrightarrow> NL \<notin> set x"
      "\<forall>x. assembly args = Some x \<longrightarrow> NL \<notin> set x"
      "\<forall>x. species args = Some x \<longrightarrow> NL \<notin> set x" for r
  proof -
    have "NL \<notin> set (hexd r)"
      using v [OF that(1)] NL_notin_hex by simp
    moreover have "\<forall>x. alias_value args (name r) = Some x \<longrightarrow> NL \<notin> set x"
      using that(2) by (auto simp add: alias_value_def NL_notin_alias_list)
    ultimately show ?thesis
      using that(2-5) by (intro count_list_record_line) simp_all
  qed
  show ?thesis
    using first second by blast
qed

text \<open>
  The two records of the example stream with every optional field: the lines come in
  the order of the records.
\<close>

theorem record_lines_in_order_witness:
  "records_read example_stream =
     [\<lparr>name = ''chr1'', seq = ''ACGTacgt''\<rparr>, \<lparr>name = ''chr2'', seq = ''acgtACGT''\<rparr>]
   \<and> write_records (\<lambda>f. Some (''/ref/'' @ f)) ''x.fa'' example_args \<lparr>absorbed = []\<rparr> example_stream =
       (Finished,
        ''@SQ'' @ [TAB] @ ''SN:chr1'' @ [TAB] @ ''LN:8'' @ [TAB]
          @ ''M5:cc0af3a4fedb18378b4b57b98068e69f'' @ [TAB] @ ''AN:1'' @ [TAB]
          @ ''UR:file:///ref/x.fa'' @ [TAB] @ ''AS:GRCh38'' @ [TAB] @ ''SP:Homo sapiens'' @ [NL]
        @ ''@SQ'' @ [TAB] @ ''SN:chr2'' @ [TAB] @ ''LN:8'' @ [TAB]
          @ ''M5:cc0af3a4fedb18378b4b57b98068e69f'' @ [TAB] @ ''AN:2'' @ [TAB]
          @ ''UR:file:///ref/x.fa'' @ [TAB] @ ''AS:GRCh38'' @ [TAB] @ ''SP:Homo sapiens'' @ [NL])"
proof -
  have rr: "records_read example_stream =
      [\<lparr>name = ''chr1'', seq = ''ACGTacgt''\<rparr>, \<lparr>name = ''chr2'', seq = ''acgtACGT''\<rparr>]"
    by (simp add: example_stream_def records_read_Cons records_read_Nil)
  have g: "\<forall>r \<in> set (records_read example_stream).
      \<exists>c c'. digest c (seq r) = Inr (c', 8, ''cc0af3a4fedb18378b4b57b98068e69f'')"
    by (simp add: rr digest_examples)
  have al: "alias_list ''chr1'' = ''1''" "alias_list ''chr2'' = ''2''"
    by (simp_all add: alias_list_def derived_alias_def bare_form_def)
  have "write_records (\<lambda>f. Some (''/ref/'' @ f)) ''x.fa'' example_args \<lparr>absorbed = []\<rparr> example_stream =
       (Finished,
        ''@SQ'' @ [TAB] @ ''SN:chr1'' @ [TAB] @ ''LN:8'' @ [TAB]
          @ ''M5:cc0af3a4fedb18378b4b57b98068e69f'' @ [TAB] @ ''AN:1'' @ [TAB]
          @ ''UR:file:///ref/x.fa'' @ [TAB] @ ''AS:GRCh38'' @ [TAB] @ ''SP:Homo sapiens'' @ [NL]
        @ ''@SQ'' @ [TAB] @ ''SN:chr2'' @ [TAB] @ ''LN:8'' @ [TAB]
          @ ''M5:cc0af3a4fedb18378b4b57b98068e69f'' @ [TAB] @ ''AN:2'' @ [TAB]
          @ ''UR:file:///ref/x.fa'' @ [TAB] @ ''AS:GRCh38'' @ [TAB] @ ''SP:Homo sapiens'' @ [NL])"
    using record_lines_in_order [OF g, of "\<lambda>f. Some (''/ref/'' @ f)" "''x.fa''" example_args "\<lparr>absorbed = []\<rparr>"]
    by (simp add: rr record_line_def alias_value_def uri_value_def fmt_s_def opt_field_def
        example_args_def al dec_nat_8)
  with rr show ?thesis by blast
qed

text \<open>
  C5. For every record exactly one line is to be written, in the order of the input,
  with its length in the LN field. The code does not do so for every record, for the
  reason given at C1: the length of a sequence is counted in the \<open>int\<close> \<open>k\<close> and
  printed with \<open>%d\<close>. In the file \<open>big.fa\<close>, whose second record of three has a
  sequence of 4294967296 letters \<open>A\<close>, the line of the first record is written; in
  the loop over the second sequence \<open>i\<close> overflows, and from there on the behaviour
  of the run is undefined: no line with \<open>LN:4294967296\<close> is written for the second
  record, and no line is assured for the third.
\<close>

theorem long_record_no_line:
  "length (filter retained long_seq) = 4294967296
   \<and> gzopen long_env ''big.fa'' =
       Some [(8, \<lparr>name = ''chr1'', seq = ''ACGTACGT''\<rparr>), (0, \<lparr>name = ''chr2'', seq = long_seq\<rparr>),
             (8, \<lparr>name = ''chr3'', seq = ''ACGTACGT''\<rparr>)]
   \<and> dict_main long_env [] [''big.fa''] False =
     \<lparr>exit_status = None,
      proc_stdout =
        ''@HD'' @ [TAB] @ ''VN:1.0'' @ [TAB] @ ''SO:unsorted'' @ [NL]
        @ ''@SQ'' @ [TAB] @ ''SN:chr1'' @ [TAB] @ ''LN:8'' @ [TAB]
        @ ''M5:cc0af3a4fedb18378b4b57b98068e69f'' @ [TAB] @ ''UR:file:///data/big.fa'' @ [NL],
      proc_file = None, proc_stderr = []\<rparr>"
proof -
  have "INT_MAX < length long_seq"
    by (simp add: long_seq_def INT_MAX_def)
  then have ov: "digest md5c long_seq = Inl SignedOverflow" for md5c
    by (rule digest_overflow)
  have "retained (CHR ''A'')"
    by (simp add: retained_def)
  then have "filter retained long_seq = long_seq"
    by (simp add: long_seq_def filter_replicate)
  then have len: "length (filter retained long_seq) = 4294967296"
    by (simp add: long_seq_def)
  have rr: "gzopen long_env ''big.fa'' =
       Some [(8, \<lparr>name = ''chr1'', seq = ''ACGTACGT''\<rparr>), (0, \<lparr>name = ''chr2'', seq = long_seq\<rparr>),
             (8, \<lparr>name = ''chr3'', seq = ''ACGTACGT''\<rparr>)]"
    by (simp add: long_env_def)
  have run: "dict_main long_env [] [''big.fa''] False =
     \<lparr>exit_status = None,
      proc_stdout =
        ''@HD'' @ [TAB] @ ''VN:1.0'' @ [TAB] @ ''SO:unsorted'' @ [NL]
        @ ''@SQ'' @ [TAB] @ ''SN:chr1'' @ [TAB] @ ''LN:8'' @ [TAB]
        @ ''M5:cc0af3a4fedb18378b4b57b98068e69f'' @ [TAB] @ ''UR:file:///data/big.fa'' @ [NL],
      proc_file = None, proc_stderr = []\<rparr>"
    by (simp add: dict_main_def args_init_def run_write_dict_def write_dict_def write_body_def
        long_env_def example_env_def strcmp_eq_def digest_examples ov sq_line_def
        uri_fprintf_def fmt_s_def hd_line_def dec_nat_8)
  from len rr run show ?thesis by simp
qed

text \<open>
  C6. In a run that opens its input and its output, the header line
  \<open>@HD VN:1.0 SO:unsorted\<close> is written if and only if header emission is enabled,
  once and before every record line, whether or not there are records; the record
  lines do not depend on the flag; with no record the output is the header line alone.
\<close>

theorem header_line:
  assumes "(if fn \<noteq> ''-'' then gzopen e fn else gzdopen_stdin e) = Some fp"
    and "\<forall>ofn. output_fname args = Some ofn \<longrightarrow> fopen_w e ofn"
    and "hts_md5_init e = Some md5c"
  shows "written (write_dict e fn args) =
           (if header args \<noteq> 0 then ''@HD'' @ [TAB] @ ''VN:1.0'' @ [TAB] @ ''SO:unsorted'' @ [NL] else [])
             @ snd (write_records (realpath e) fn args md5c fp)
       \<and> (\<exists>n \<le> length (records_read fp).
             snd (write_records (realpath e) fn args md5c fp) =
               concat (map (\<lambda>r. sq_line (realpath e) fn args (name r) (length (filter retained (seq r)))
                                  (hts_md5_hex (md5 (map of_char (normalized (seq r))))))
                           (take n (records_read fp))))
       \<and> snd (write_records (realpath e) fn (args\<lparr>header := h\<rparr>) md5c fp) =
             snd (write_records (realpath e) fn args md5c fp)
       \<and> (prefix (''@HD'' @ [TAB] @ ''VN:1.0'' @ [TAB] @ ''SO:unsorted'' @ [NL])
             (written (write_dict e fn args)) \<longleftrightarrow> header args \<noteq> 0)
       \<and> (records_read fp = [] \<longrightarrow>
             written (write_dict e fn args) =
               (if header args \<noteq> 0 then ''@HD'' @ [TAB] @ ''VN:1.0'' @ [TAB] @ ''SO:unsorted'' @ [NL] else []))"
proof -
  let ?body = "snd (write_records (realpath e) fn args md5c fp)"
  have w: "written (write_dict e fn args) = (if header args \<noteq> 0 then hd_line else []) @ ?body"
    using assms by (rule write_dict_opened(1))
  have nh: "\<not> prefix hd_line ?body"
    by (rule write_records_no_header)
  have iff: "prefix hd_line (written (write_dict e fn args)) \<longleftrightarrow> header args \<noteq> 0"
    using nh by (simp add: w)
  have none: "records_read fp = [] \<longrightarrow> ?body = []"
    by (simp add: write_records_none)
  show ?thesis
    using w iff none write_records_shape [of fp "realpath e" fn args md5c]
    by (simp add: hd_line_def write_records_header)
qed

text \<open>The empty file with the default options: the output is the header line.\<close>

theorem header_line_witness:
  "gzopen example_env ''empty.fa'' = Some []
   \<and> output_fname args_init = None
   \<and> hts_md5_init example_env = Some \<lparr>absorbed = []\<rparr>
   \<and> header args_init \<noteq> 0
   \<and> records_read [] = []
   \<and> written (write_dict example_env ''empty.fa'' args_init) =
         ''@HD'' @ [TAB] @ ''VN:1.0'' @ [TAB] @ ''SO:unsorted'' @ [NL]
   \<and> written (write_dict example_env ''empty.fa'' (args_init\<lparr>header := 0\<rparr>)) = []"
proof -
  have 1: "(if ''empty.fa'' \<noteq> ''-'' then gzopen example_env ''empty.fa''
            else gzdopen_stdin example_env) = Some []"
    by (simp add: example_env_def)
  have 2: "\<forall>ofn. output_fname args_init = Some ofn \<longrightarrow> fopen_w example_env ofn"
    by (simp add: args_init_def)
  have 3: "hts_md5_init example_env = Some \<lparr>absorbed = []\<rparr>"
    by (simp add: example_env_def)
  have 4: "header args_init \<noteq> 0" "output_fname args_init = None"
    by (simp_all add: args_init_def)
  have 5: "gzopen example_env ''empty.fa'' = Some []"
    by (simp add: example_env_def)
  have 6: "\<forall>ofn. output_fname (args_init\<lparr>header := 0\<rparr>) = Some ofn \<longrightarrow> fopen_w example_env ofn"
    by (simp add: args_init_def)
  from header_line [OF 1 2 3] header_line [OF 1 6 3] 3 4 5 show ?thesis
    by (simp add: records_read_Nil)
qed

text \<open>
  C4 fails on the code for an input that opens but cannot be read to its end. For the
  file \<open>bad.fa.gz\<close>, whose first read gives a record and whose second read
  returns -3, the loop ends as it does at the end of the data: the header and the
  line of the first record are written, nothing goes to the error stream and the
  exit status is 0.
\<close>

theorem read_error_swallowed:
  "dict_main example_env [] [''bad.fa.gz''] False =
     \<lparr>exit_status = Some 0,
      proc_stdout =
        ''@HD'' @ [TAB] @ ''VN:1.0'' @ [TAB] @ ''SO:unsorted'' @ [NL]
        @ ''@SQ'' @ [TAB] @ ''SN:chr1'' @ [TAB] @ ''LN:8'' @ [TAB]
        @ ''M5:cc0af3a4fedb18378b4b57b98068e69f'' @ [TAB] @ ''UR:file:///data/bad.fa.gz'' @ [NL],
      proc_file = None, proc_stderr = []\<rparr>"
  by (simp add: dict_main_def args_init_def run_write_dict_def write_dict_def write_body_def
      example_env_def strcmp_eq_def digest_examples sq_line_def uri_fprintf_def fmt_s_def hd_line_def
      dec_nat_8)

text \<open>
  C10. The input path \<open>-\<close> stands for standard input: the run never consults the
  files for that name, it reads the records of standard input and fails when
  standard input cannot be opened; and with no URI option its record lines have no
  UR field.
\<close>

theorem stdin_sentinel:
  "write_dict (e\<lparr>gzopen := g\<rparr>) ''-'' args = write_dict e ''-'' args
   \<and> dict_main (e\<lparr>gzopen := g\<rparr>) opts (''-'' # others) tty = dict_main e opts (''-'' # others) tty
   \<and> (gzdopen_stdin e = None \<longrightarrow>
        status (write_dict e ''-'' args) = Exited 1 \<and> written (write_dict e ''-'' args) = [])
   \<and> (gzdopen_stdin e = Some fp \<and> (\<forall>ofn. output_fname args = Some ofn \<longrightarrow> fopen_w e ofn)
        \<and> hts_md5_init e = Some md5c \<longrightarrow>
        written (write_dict e ''-'' args) =
          (if header args \<noteq> 0 then hd_line else [])
            @ snd (write_records (realpath e) ''-'' args md5c fp))
   \<and> (uri args = None \<longrightarrow>
        sq_line rp ''-'' args nm k hex =
          record_line nm k hex (alias_value args nm) None (assembly args) (species args))"
proof -
  have wb: "write_body (e\<lparr>gzopen := g\<rparr>) ''-'' a x = write_body e ''-'' a x" for a x
    by (simp add: write_body_def split: option.splits)
  have wd: "write_dict (e\<lparr>gzopen := g\<rparr>) ''-'' a = write_dict e ''-'' a" for a
    by (simp add: write_dict_def wb strcmp_eq_def split: option.splits)
  have dm: "dict_main (e\<lparr>gzopen := g\<rparr>) opts (''-'' # others) tty = dict_main e opts (''-'' # others) tty"
    by (simp add: dict_main_def run_write_dict_def wd split: option.splits)
  have none: "gzdopen_stdin e = None \<longrightarrow>
      status (write_dict e ''-'' args) = Exited 1 \<and> written (write_dict e ''-'' args) = []"
    by (simp add: write_dict_unopened written_def)
  have some: "gzdopen_stdin e = Some fp \<and> (\<forall>ofn. output_fname args = Some ofn \<longrightarrow> fopen_w e ofn)
        \<and> hts_md5_init e = Some md5c \<longrightarrow>
        written (write_dict e ''-'' args) =
          (if header args \<noteq> 0 then hd_line else [])
            @ snd (write_records (realpath e) ''-'' args md5c fp)"
    using write_dict_opened(1) [of "''-''" e fp args md5c] by simp
  show ?thesis
    using wd dm none some by (simp add: sq_line_eq uri_value_def)
qed

text \<open>
  In the example environment a file named \<open>-\<close> exists and holds a record
  \<open>decoy\<close>; the run on \<open>-\<close> writes the two records of standard input.
\<close>

theorem stdin_sentinel_witness:
  "gzopen example_env ''-'' = Some [(8, \<lparr>name = ''decoy'', seq = ''ACGTACGT''\<rparr>)]
   \<and> dict_main example_env [] [''-''] False =
     \<lparr>exit_status = Some 0,
      proc_stdout =
        ''@HD'' @ [TAB] @ ''VN:1.0'' @ [TAB] @ ''SO:unsorted'' @ [NL]
        @ ''@SQ'' @ [TAB] @ ''SN:chr1'' @ [TAB] @ ''LN:8'' @ [TAB]
        @ ''M5:cc0af3a4fedb18378b4b57b98068e69f'' @ [NL]
        @ ''@SQ'' @ [TAB] @ ''SN:chr2'' @ [TAB] @ ''LN:8'' @ [TAB]
        @ ''M5:cc0af3a4fedb18378b4b57b98068e69f'' @ [NL],
      proc_file = None, proc_stderr = []\<rparr>"
proof -
  have u: "uri args_init = None"
    by (simp add: args_init_def)
  have l: "sq_line rp ''-'' args_init nm k hex =
      record_line nm k hex (alias_value args_init nm) None (assembly args_init) (species args_init)"
    for rp nm k hex
    using stdin_sentinel [where args = args_init and rp = rp and nm = nm and k = k and hex = hex] u
    by simp
  show ?thesis
    by (simp add: dict_main_def run_write_dict_def write_dict_def write_body_def
      example_env_def strcmp_eq_def example_stream_def digest_examples l hd_line_def
      record_line_def alias_value_def opt_field_def args_init_fields dec_nat_8)
qed



end
